theory Spec2Isabelle
  imports Complex_Main
begin

section \<open>Batch processing (src/src/batch_processing.py)\<close>

text \<open>
  A shallow embedding of the class \<open>BatchProcessor\<close> and of the dataclass \<open>BatchJob\<close>.

  \<^item> Python floats (clock readings of \<open>time.time()\<close>, \<open>job.progress\<close>) are exact
    rationals here; rounding is not modelled.
  \<^item> A \<open>BatchJob\<close> is a mutable object that the active dictionary, the history list
    and the running driver all refer to. The model keeps the objects in a store
    (\<open>job_store\<close>, addresses are natural numbers, \<open>next_ref\<close> is the first unused one);
    \<open>active_jobs\<close> and \<open>job_history\<close> hold addresses.
  \<^item> Every \<open>time.time()\<close> is an argument of the operation that reads the clock.
  \<^item> \<open>_process_single_file\<close> is a placeholder in the source (it sleeps, then builds
    a dictionary from the clock and the file system, re-raising whatever fails);
    its outcome is the parameter \<open>work\<close>: \<open>Inl msg\<close> when the future's
    \<open>result(timeout=300)\<close> raises an exception whose text is \<open>msg\<close>, \<open>Inr p\<close> when
    it returns \<open>p\<close>.
  \<^item> A callback is a function from its arguments to \<open>None\<close> (it returns) or
    \<open>Some msg\<close> (it raises an exception whose text is \<open>msg\<close>).
  \<^item> The calls to \<open>logger\<close> and to the \<open>analytics\<close> singleton only count and
    print; they are left out.
\<close>

subsection \<open>Python helpers\<close>

text \<open>\<open>int(x)\<close> on a float truncates toward zero.\<close>

definition py_int :: "rat \<Rightarrow> int" where
  "py_int x = (if 0 \<le> x then \<lfloor>x\<rfloor> else \<lceil>x\<rceil>)"

definition digit_char :: "nat \<Rightarrow> char" where
  "digit_char d = ''0123456789'' ! d"

text \<open>The decimal digits of a natural number, most significant first.\<close>

function digits :: "nat \<Rightarrow> string" where
  "digits n = (if n < 10 then [digit_char n] else digits (n div 10) @ [digit_char (n mod 10)])"
  by pat_completeness auto
termination
  by (relation "measure id") auto

declare digits.simps [simp del]

text \<open>\<open>str(i)\<close> of a Python integer, as the f-string of \<open>job_id\<close> renders it.\<close>

definition str_int :: "int \<Rightarrow> string" where
  "str_int i = (if i < 0 then CHR ''-'' # digits (nat (- i)) else digits (nat i))"

text \<open>
  Truthiness of an \<open>Optional[float]\<close>, as in \<open>not job.start_time\<close> and
  \<open>job.end_time and job.start_time\<close>: \<open>None\<close> and \<open>0.0\<close> are false.
\<close>

definition truthy :: "rat option \<Rightarrow> bool" where
  "truthy t = (case t of None \<Rightarrow> False | Some x \<Rightarrow> x \<noteq> 0)"

subsection \<open>Exceptions\<close>

datatype error =
    ZeroDivisionError
  | KeyError string
  | ValueError string
  | TypeError string
  | CallbackError string

text \<open>\<open>str(e)\<close>; a \<open>KeyError\<close> prints the repr of its key.\<close>

fun error_str :: "error \<Rightarrow> string" where
  "error_str ZeroDivisionError = ''division by zero''"
| "error_str (KeyError k) = [CHR 0x27] @ k @ [CHR 0x27]"
| "error_str (ValueError m) = m"
| "error_str (TypeError m) = m"
| "error_str (CallbackError m) = m"

text \<open>
  The outcome of a piece of code that may raise part-way: the state it has reached
  is kept in both cases, since the mutations done before the exception stay.
\<close>

datatype 'a outcome = Raised error 'a | Returned 'a

fun state_of :: "'a outcome \<Rightarrow> 'a" where
  "state_of (Raised e s) = s"
| "state_of (Returned s) = s"

subsection \<open>Data model\<close>

datatype ProcessingStatus = PENDING | PROCESSING | COMPLETED | FAILED | CANCELLED

fun status_value :: "ProcessingStatus \<Rightarrow> string" where
  "status_value PENDING = ''pending''"
| "status_value PROCESSING = ''processing''"
| "status_value COMPLETED = ''completed''"
| "status_value FAILED = ''failed''"
| "status_value CANCELLED = ''cancelled''"

type_synonym payload = string

text \<open>
  An entry of \<open>job.results\<close>: \<open>{"file_path", "result", "status": "success"}\<close> or
  \<open>{"file_path", "error", "status": "error"}\<close>.
\<close>

datatype result_entry =
    SuccessEntry string payload
  | ErrorEntry string string

fun entry_status :: "result_entry \<Rightarrow> string" where
  "entry_status (SuccessEntry f p) = ''success''"
| "entry_status (ErrorEntry f m) = ''error''"

record BatchJob =
  job_id :: string
  file_paths :: "string list"
  analysis_types :: "string list"
  custom_prompt :: "string option"
  status :: ProcessingStatus
  progress :: rat
  start_time :: "rat option"
  end_time :: "rat option"
  results :: "result_entry list"
  errors :: "string list"

text \<open>The dataclass defaults, with \<open>__post_init__\<close> replacing the two \<open>None\<close> lists.\<close>

definition new_BatchJob :: "string \<Rightarrow> string list \<Rightarrow> string list \<Rightarrow> string option \<Rightarrow> BatchJob" where
  "new_BatchJob jid fps ats cp =
     \<lparr> job_id = jid, file_paths = fps, analysis_types = ats, custom_prompt = cp,
       status = PENDING, progress = 0, start_time = None, end_time = None,
       results = [], errors = [] \<rparr>"

text \<open>The dictionary that \<open>_save_job_results\<close> dumps as JSON.\<close>

record job_data =
  jd_job_id :: string
  jd_file_paths :: "string list"
  jd_analysis_types :: "string list"
  jd_custom_prompt :: "string option"
  jd_status :: string
  jd_progress :: rat
  jd_start_time :: "rat option"
  jd_end_time :: "rat option"
  jd_processing_time :: "rat option"
  jd_results :: "result_entry list"
  jd_errors :: "string list"
  jd_total_files :: nat
  jd_successful_files :: nat
  jd_failed_files :: nat
  jd_total_errors :: nat

text \<open>
  A file of the results directory: its modification time and the dictionary it
  holds, \<open>None\<close> when \<open>json.dump\<close> failed after \<open>open(..., 'w')\<close> had already
  created or truncated the file.
\<close>

record saved_file =
  mtime :: rat
  content :: "job_data option"

record BatchProcessor =
  max_concurrent :: int
  max_workers :: int
  job_store :: "nat \<Rightarrow> BatchJob"
  next_ref :: nat
  active_jobs :: "string \<rightharpoonup> nat"
  job_history :: "nat list"
  submitted :: "string list"
  progress_callbacks :: "string \<rightharpoonup> (rat \<Rightarrow> nat \<Rightarrow> nat \<Rightarrow> string option)"
  completion_callbacks :: "string \<rightharpoonup> (BatchJob \<Rightarrow> string option)"
  result_files :: "string \<rightharpoonup> saved_file"

text \<open>
  \<open>submitted\<close> is the executor seen from the driver: the file paths handed to
  \<open>self.executor.submit\<close> so far, in order. \<open>result_files\<close> is the directory
  \<open>results/batch_processing\<close>, by file name.

  \<open>__init__\<close>: \<open>ThreadPoolExecutor(max_workers=max_workers)\<close> raises \<open>ValueError\<close>
  unless \<open>max_workers > 0\<close>.
\<close>

definition BatchProcessor_init :: "int \<Rightarrow> int \<Rightarrow> error + BatchProcessor" where
  "BatchProcessor_init max_concurrent_jobs mw =
     (if mw \<le> 0 then Inl (ValueError ''max_workers must be greater than 0'')
      else Inr \<lparr> max_concurrent = max_concurrent_jobs, max_workers = mw,
                 job_store = (\<lambda>r. new_BatchJob [] [] [] None), next_ref = 0,
                 active_jobs = Map.empty, job_history = [], submitted = [],
                 progress_callbacks = Map.empty, completion_callbacks = Map.empty,
                 result_files = Map.empty \<rparr>)"

text \<open>The module's \<open>batch_processor = BatchProcessor()\<close>, with the default arguments 3 and 4.\<close>

definition batch_processor :: BatchProcessor where
  "batch_processor =
     \<lparr> max_concurrent = 3, max_workers = 4,
       job_store = (\<lambda>r. new_BatchJob [] [] [] None), next_ref = 0,
       active_jobs = Map.empty, job_history = [], submitted = [],
       progress_callbacks = Map.empty, completion_callbacks = Map.empty,
       result_files = Map.empty \<rparr>"

subsection \<open>submit_batch_job\<close>

text \<open>
  Lines 69-107. The job id is \<open>f"batch_{int(time.time() * 1000)}"\<close>; the new object is
  stored under it in \<open>active_jobs\<close> (an assignment: an entry with the same key is
  replaced). \<open>asyncio.create_task\<close> schedules the driver \<open>_process_batch_job\<close>, which
  runs later: it is a separate operation below. \<open>priority\<close> is not read.
  There is no \<open>raise\<close> and no test of \<open>file_paths\<close> in the body.
\<close>

definition make_job_id :: "rat \<Rightarrow> string" where
  "make_job_id now = ''batch_'' @ str_int (py_int (now * 1000))"

definition submit_batch_job ::
  "string list \<Rightarrow> string list \<Rightarrow> string option \<Rightarrow> int \<Rightarrow> rat \<Rightarrow> BatchProcessor \<Rightarrow> string \<times> BatchProcessor" where
  "submit_batch_job fps ats cp priority now s =
     (let jid = make_job_id now;
          job = new_BatchJob jid fps ats cp;
          r = next_ref s
      in (jid, s\<lparr> job_store := (job_store s)(r := job),
                  next_ref := Suc r,
                  active_jobs := (active_jobs s)(jid \<mapsto> r) \<rparr>))"

subsection \<open>The driver\<close>

text \<open>
  What a run of the driver reads from outside the processor: the outcome of each
  unit of work, the three clock readings (line 113, line 122, line 143 in the
  handler) and what happens to the result file.
\<close>

datatype write_outcome = WriteOk | OpenFails string | DumpFails string

record driver_env =
  work :: "string \<Rightarrow> string list \<Rightarrow> string option \<Rightarrow> string + payload"
  t_start :: rat
  t_end :: rat
  t_fail :: rat
  write_result :: write_outcome
  t_write :: rat

text \<open>Mutation of the job object at address \<open>r\<close>.\<close>

definition update_job :: "nat \<Rightarrow> (BatchJob \<Rightarrow> BatchJob) \<Rightarrow> BatchProcessor \<Rightarrow> BatchProcessor" where
  "update_job r f s = s\<lparr> job_store := (job_store s)(r := f (job_store s r)) \<rparr>"

text \<open>
  Lines 177-199, the body of \<open>for future, file_path in futures\<close> for one future.
  The pair is the processor and the local \<open>completed_files\<close>. The division of
  line 195 raises when \<open>total_files\<close> is 0; the progress callback is looked up
  under the job's id and may raise; both exceptions leave the \<open>try\<close> of
  \<open>_process_batch_job\<close>.
\<close>

definition collect_result ::
  "driver_env \<Rightarrow> nat \<Rightarrow> nat \<Rightarrow> string \<Rightarrow> BatchProcessor \<times> nat \<Rightarrow> (BatchProcessor \<times> nat) outcome" where
  "collect_result env r total_files file_path sc =
     (let s = fst sc; completed_files = snd sc; job = job_store s r;
          s1 = (case work env file_path (analysis_types job) (custom_prompt job) of
                  Inr res \<Rightarrow>
                    update_job r (\<lambda>j. j\<lparr> results := results j @ [SuccessEntry file_path res] \<rparr>) s
                | Inl msg \<Rightarrow>
                    update_job r (\<lambda>j. j\<lparr> errors := errors j @ [''Error processing '' @ file_path @ '': '' @ msg],
                                          results := results j @ [ErrorEntry file_path msg] \<rparr>) s);
          completed_files' = completed_files + 1
      in if total_files = 0 then Raised ZeroDivisionError (s1, completed_files')
         else
           let s2 = update_job r (\<lambda>j. j\<lparr> progress := (of_nat completed_files' / of_nat total_files) * 100 \<rparr>) s1
           in (case progress_callbacks s2 (job_id (job_store s2 r)) of
                 None \<Rightarrow> Returned (s2, completed_files')
               | Some cb \<Rightarrow>
                   (case cb (progress (job_store s2 r)) completed_files' total_files of
                      None \<Rightarrow> Returned (s2, completed_files')
                    | Some msg \<Rightarrow> Raised (CallbackError msg) (s2, completed_files'))))"

text \<open>The loop \<open>for future, file_path in futures\<close>; an exception ends it.\<close>

fun collect_results ::
  "driver_env \<Rightarrow> nat \<Rightarrow> nat \<Rightarrow> string list \<Rightarrow> BatchProcessor \<times> nat \<Rightarrow> (BatchProcessor \<times> nat) outcome" where
  "collect_results env r total_files [] sc = Returned sc"
| "collect_results env r total_files (file_path # rest) sc =
     (case collect_result env r total_files file_path sc of
        Raised e sc' \<Rightarrow> Raised e sc'
      | Returned sc' \<Rightarrow> collect_results env r total_files rest sc')"

text \<open>
  Lines 163-199, one turn of the outer loop: the slice
  \<open>job.file_paths[i:i + batch_size]\<close> is handed to the executor, file by file, and
  then the futures are collected in the same order.
\<close>

definition process_sub_batch ::
  "driver_env \<Rightarrow> nat \<Rightarrow> nat \<Rightarrow> nat \<Rightarrow> nat \<Rightarrow> BatchProcessor \<times> nat \<Rightarrow> (BatchProcessor \<times> nat) outcome" where
  "process_sub_batch env r total_files batch_size i sc =
     (let s = fst sc;
          batch_files = take batch_size (drop i (file_paths (job_store s r)));
          s1 = s\<lparr> submitted := submitted s @ batch_files \<rparr>
      in collect_results env r total_files batch_files (s1, snd sc))"

text \<open>\<open>for i in range(0, total_files, batch_size)\<close>, from \<open>i\<close> on, for a positive step.\<close>

function sub_batch_loop ::
  "driver_env \<Rightarrow> nat \<Rightarrow> nat \<Rightarrow> nat \<Rightarrow> nat \<Rightarrow> BatchProcessor \<times> nat \<Rightarrow> (BatchProcessor \<times> nat) outcome" where
  "sub_batch_loop env r total_files batch_size i sc =
     (if 0 < batch_size \<and> i < total_files then
        (case process_sub_batch env r total_files batch_size i sc of
           Raised e sc' \<Rightarrow> Raised e sc'
         | Returned sc' \<Rightarrow> sub_batch_loop env r total_files batch_size (i + batch_size) sc')
      else Returned sc)"
  by pat_completeness auto
termination
  by (relation "measure (\<lambda>(env, r, total_files, batch_size, i, sc). total_files - i)") auto

declare sub_batch_loop.simps [simp del]

text \<open>
  \<open>_process_files_with_progress\<close>, lines 154-199. \<open>range\<close> raises \<open>ValueError\<close> for
  a step of 0 and is empty for a negative step. Nothing in the body reads
  \<open>job.status\<close>, \<open>active_jobs\<close> or any flag.
\<close>

definition process_files_with_progress :: "driver_env \<Rightarrow> nat \<Rightarrow> BatchProcessor \<Rightarrow> BatchProcessor outcome" where
  "process_files_with_progress env r s =
     (let total_files = length (file_paths (job_store s r));
          batch_size = min (max_workers s) 4
      in if batch_size = 0 then Raised (ValueError ''range() arg 3 must not be zero'') s
         else if batch_size < 0 then Returned s
         else (case sub_batch_loop env r total_files (nat batch_size) 0 (s, 0) of
                 Raised e sc \<Rightarrow> Raised e (fst sc)
               | Returned sc \<Rightarrow> Returned (fst sc)))"

text \<open>\<open>_save_job_results\<close>, lines 237-269: every exception is caught and logged.\<close>

definition processing_time_of :: "BatchJob \<Rightarrow> rat option" where
  "processing_time_of job =
     (if truthy (end_time job) \<and> truthy (start_time job)
      then Some (the (end_time job) - the (start_time job)) else None)"

definition job_data_of :: "BatchJob \<Rightarrow> job_data" where
  "job_data_of job =
     \<lparr> jd_job_id = job_id job, jd_file_paths = file_paths job,
       jd_analysis_types = analysis_types job, jd_custom_prompt = custom_prompt job,
       jd_status = status_value (status job), jd_progress = progress job,
       jd_start_time = start_time job, jd_end_time = end_time job,
       jd_processing_time = processing_time_of job,
       jd_results = results job, jd_errors = errors job,
       jd_total_files = length (file_paths job),
       jd_successful_files = length (filter (\<lambda>e. entry_status e = ''success'') (results job)),
       jd_failed_files = length (filter (\<lambda>e. entry_status e = ''error'') (results job)),
       jd_total_errors = length (errors job) \<rparr>"

definition save_job_results :: "driver_env \<Rightarrow> nat \<Rightarrow> BatchProcessor \<Rightarrow> BatchProcessor" where
  "save_job_results env r s =
     (let job = job_store s r;
          results_file = ''job_'' @ job_id job @ ''.json''
      in case write_result env of
           OpenFails msg \<Rightarrow> s
         | DumpFails msg \<Rightarrow>
             s\<lparr> result_files := (result_files s)(results_file \<mapsto> \<lparr> mtime = t_write env, content = None \<rparr>) \<rparr>
         | WriteOk \<Rightarrow>
             s\<lparr> result_files := (result_files s)(results_file \<mapsto>
                   \<lparr> mtime = t_write env, content = Some (job_data_of job) \<rparr>) \<rparr>)"

text \<open>
  \<open>_process_batch_job\<close>, lines 109-152, in three pieces: lines 112-113, lines
  121-139 (after the files), and the handler, lines 142-152.
  \<open>del self.active_jobs[job.job_id]\<close> raises \<open>KeyError\<close> when the key is gone, and
  the subtraction of line 136 raises \<open>TypeError\<close> on a \<open>start_time\<close> of \<open>None\<close>.
\<close>

definition driver_begin :: "driver_env \<Rightarrow> nat \<Rightarrow> BatchProcessor \<Rightarrow> BatchProcessor" where
  "driver_begin env r s =
     update_job r (\<lambda>j. j\<lparr> status := PROCESSING, start_time := Some (t_start env) \<rparr>) s"

text \<open>Line 136, \<open>processing_time = job.end_time - job.start_time\<close>, with \<open>end_time\<close> just set.\<close>

definition subtract_times :: "nat \<Rightarrow> BatchProcessor \<Rightarrow> BatchProcessor outcome" where
  "subtract_times r s =
     (case start_time (job_store s r) of
        None \<Rightarrow> Raised (TypeError ''unsupported operand type(s) for -'') s
      | Some t0 \<Rightarrow> Returned s)"

definition driver_complete :: "driver_env \<Rightarrow> nat \<Rightarrow> BatchProcessor \<Rightarrow> BatchProcessor outcome" where
  "driver_complete env r s =
     (let s1 = update_job r (\<lambda>j. j\<lparr> status := COMPLETED, end_time := Some (t_end env), progress := 100 \<rparr>) s;
          s2 = save_job_results env r s1;
          s3 = s2\<lparr> job_history := job_history s2 @ [r] \<rparr>;
          jid = job_id (job_store s3 r);
          s4 = s3\<lparr> active_jobs := (active_jobs s3)(jid := None) \<rparr>
      in if active_jobs s3 jid = None then Raised (KeyError jid) s3
         else (case completion_callbacks s4 jid of
                 None \<Rightarrow> subtract_times r s4
               | Some cb \<Rightarrow>
                   (case cb (job_store s4 r) of
                      Some msg \<Rightarrow> Raised (CallbackError msg) s4
                    | None \<Rightarrow> subtract_times r s4)))"

definition driver_fail :: "driver_env \<Rightarrow> error \<Rightarrow> nat \<Rightarrow> BatchProcessor \<Rightarrow> BatchProcessor" where
  "driver_fail env e r s =
     (let s1 = update_job r (\<lambda>j. j\<lparr> status := FAILED, end_time := Some (t_fail env),
                                    errors := errors j @ [error_str e] \<rparr>) s;
          s2 = s1\<lparr> job_history := job_history s1 @ [r] \<rparr>;
          jid = job_id (job_store s2 r)
      in if active_jobs s2 jid \<noteq> None
         then s2\<lparr> active_jobs := (active_jobs s2)(jid := None) \<rparr>
         else s2)"

definition process_batch_job :: "driver_env \<Rightarrow> nat \<Rightarrow> BatchProcessor \<Rightarrow> BatchProcessor" where
  "process_batch_job env r s =
     (case process_files_with_progress env r (driver_begin env r s) of
        Raised e s1 \<Rightarrow> driver_fail env e r s1
      | Returned s1 \<Rightarrow>
          (case driver_complete env r s1 of
             Raised e s2 \<Rightarrow> driver_fail env e r s2
           | Returned s2 \<Rightarrow> s2))"

subsection \<open>Status queries\<close>








subsection \<open>Cancellation, callbacks, clean-up\<close>

text \<open>\<open>cancel_job\<close>, lines 315-329.\<close>

definition cancel_job :: "string \<Rightarrow> rat \<Rightarrow> BatchProcessor \<Rightarrow> bool \<times> BatchProcessor" where
  "cancel_job jid now s =
     (case active_jobs s jid of
        Some r \<Rightarrow>
          (let s1 = update_job r (\<lambda>j. j\<lparr> status := CANCELLED, end_time := Some now \<rparr>) s
           in (True, s1\<lparr> job_history := job_history s1 @ [r],
                         active_jobs := (active_jobs s1)(jid := None) \<rparr>))
      | None \<Rightarrow> (False, s))"

definition register_progress_callback ::
  "string \<Rightarrow> (rat \<Rightarrow> nat \<Rightarrow> nat \<Rightarrow> string option) \<Rightarrow> BatchProcessor \<Rightarrow> BatchProcessor" where
  "register_progress_callback jid cb s = s\<lparr> progress_callbacks := (progress_callbacks s)(jid \<mapsto> cb) \<rparr>"

definition register_completion_callback ::
  "string \<Rightarrow> (BatchJob \<Rightarrow> string option) \<Rightarrow> BatchProcessor \<Rightarrow> BatchProcessor" where
  "register_completion_callback jid cb s = s\<lparr> completion_callbacks := (completion_callbacks s)(jid \<mapsto> cb) \<rparr>"

text \<open>
  \<open>cleanup_old_jobs\<close>, lines 366-380. The history keeps the jobs whose \<open>end_time\<close>
  is set and later than the cut-off; the files matching \<open>job_*.json\<close> that were
  modified before the cut-off are unlinked.
\<close>

definition matches_job_glob :: "string \<Rightarrow> bool" where
  "matches_job_glob name =
     (9 \<le> length name \<and> take 4 name = ''job_'' \<and> drop (length name - 5) name = ''.json'')"

definition cleanup_old_jobs :: "int \<Rightarrow> rat \<Rightarrow> BatchProcessor \<Rightarrow> BatchProcessor" where
  "cleanup_old_jobs days_old now s =
     (let cutoff_time = now - of_int (days_old * 24 * 3600)
      in s\<lparr> job_history :=
               filter (\<lambda>r. truthy (end_time (job_store s r)) \<and> the (end_time (job_store s r)) > cutoff_time)
                      (job_history s),
             result_files :=
               (\<lambda>name. case result_files s name of
                          None \<Rightarrow> None
                        | Some f \<Rightarrow> if matches_job_glob name \<and> mtime f < cutoff_time then None else Some f) \<rparr>)"

subsection \<open>Operations on the processor\<close>

text \<open>
  The calls that change the processor. A driver belongs to a job object that
  exists (\<open>r < next_ref\<close>); it runs either in one piece (\<open>RunDriver\<close>) or piece by
  piece, so that other calls can come between two sub-batches, as they do when
  \<open>cancel_job\<close> is called from another thread.
\<close>

datatype operation =
    Submit "string list" "string list" "string option" int rat
  | RunDriver driver_env nat
  | DriverBegin driver_env nat
  | DriverSubBatch driver_env nat nat nat nat nat
  | DriverComplete driver_env nat
  | DriverFail driver_env error nat
  | Cancel string rat
  | RegisterProgress string "rat \<Rightarrow> nat \<Rightarrow> nat \<Rightarrow> string option"
  | RegisterCompletion string "BatchJob \<Rightarrow> string option"
  | Cleanup int rat

fun is_cleanup :: "operation \<Rightarrow> bool" where
  "is_cleanup (Cleanup d t) = True"
| "is_cleanup other = False"

fun apply_operation :: "operation \<Rightarrow> BatchProcessor \<Rightarrow> BatchProcessor" where
  "apply_operation (Submit fps ats cp priority now) s = snd (submit_batch_job fps ats cp priority now s)"
| "apply_operation (RunDriver env r) s = (if r < next_ref s then process_batch_job env r s else s)"
| "apply_operation (DriverBegin env r) s = (if r < next_ref s then driver_begin env r s else s)"
| "apply_operation (DriverSubBatch env r total_files batch_size i c) s =
     (if r < next_ref s then fst (state_of (process_sub_batch env r total_files batch_size i (s, c))) else s)"
| "apply_operation (DriverComplete env r) s = (if r < next_ref s then state_of (driver_complete env r s) else s)"
| "apply_operation (DriverFail env e r) s = (if r < next_ref s then driver_fail env e r s else s)"
| "apply_operation (Cancel jid now) s = snd (cancel_job jid now s)"
| "apply_operation (RegisterProgress jid cb) s = register_progress_callback jid cb s"
| "apply_operation (RegisterCompletion jid cb) s = register_completion_callback jid cb s"
| "apply_operation (Cleanup days_old now) s = cleanup_old_jobs days_old now s"

fun run :: "operation list \<Rightarrow> BatchProcessor \<Rightarrow> BatchProcessor" where
  "run [] s = s"
| "run (op # ops) s = run ops (apply_operation op s)"

subsection \<open>What the loop over the files leaves in the job\<close>

text \<open>
  The entry and the error message that one unit of work adds to \<open>job.results\<close> and
  \<open>job.errors\<close> (lines 178-192), and the job after the units of the files \<open>fps\<close>
  have been collected, \<open>c\<close> units having been collected before (lines 180-195):
  used to state what the loops compute.
\<close>

definition file_entry :: "driver_env \<Rightarrow> string list \<Rightarrow> string option \<Rightarrow> string \<Rightarrow> result_entry" where
  "file_entry env ats cp fp =
     (case work env fp ats cp of Inr res \<Rightarrow> SuccessEntry fp res | Inl msg \<Rightarrow> ErrorEntry fp msg)"

definition file_errors :: "driver_env \<Rightarrow> string list \<Rightarrow> string option \<Rightarrow> string \<Rightarrow> string list" where
  "file_errors env ats cp fp =
     (case work env fp ats cp of
        Inr res \<Rightarrow> []
      | Inl msg \<Rightarrow> [''Error processing '' @ fp @ '': '' @ msg])"

definition collected :: "driver_env \<Rightarrow> nat \<Rightarrow> string list \<Rightarrow> nat \<Rightarrow> BatchJob \<Rightarrow> BatchJob" where
  "collected env total_files fps c job =
     job\<lparr> results := results job @ map (file_entry env (analysis_types job) (custom_prompt job)) fps,
          errors := errors job @ concat (map (file_errors env (analysis_types job) (custom_prompt job)) fps),
          progress := (if fps = [] then progress job
                       else (of_nat (c + length fps) / of_nat total_files) * 100) \<rparr>"

section \<open>Properties\<close>

subsection \<open>The decimal rendering of job ids\<close>















subsection \<open>Submission\<close>






subsection \<open>Estimated remaining time\<close>



subsection \<open>Status queries\<close>




subsection \<open>Persistence\<close>

text \<open>The loops of the driver read nothing of the environment but the units of work.\<close>

lemma collect_result_write: "collect_result (env\<lparr> write_result := w \<rparr>) r n fp sc = collect_result env r n fp sc"
  by (simp add: collect_result_def)

lemma collect_results_write: "collect_results (env\<lparr> write_result := w \<rparr>) r n fps sc = collect_results env r n fps sc"
  by (induction fps arbitrary: sc) (simp_all add: collect_result_write split: outcome.splits)

lemma process_sub_batch_write: "process_sub_batch (env\<lparr> write_result := w \<rparr>) r n bs i sc = process_sub_batch env r n bs i sc"
  by (simp add: process_sub_batch_def collect_results_write)

lemma sub_batch_loop_write: "sub_batch_loop (env\<lparr> write_result := w \<rparr>) r n bs i sc = sub_batch_loop env r n bs i sc"
proof (induction env r n bs i sc rule: sub_batch_loop.induct)
  case (1 env r n bs i sc)
  have L: "sub_batch_loop (env\<lparr> write_result := w \<rparr>) r n bs i sc =
     (if 0 < bs \<and> i < n then
        (case process_sub_batch (env\<lparr> write_result := w \<rparr>) r n bs i sc of
           Raised e sc' \<Rightarrow> Raised e sc'
         | Returned sc' \<Rightarrow> sub_batch_loop (env\<lparr> write_result := w \<rparr>) r n bs (i + bs) sc')
      else Returned sc)"
    by (rule sub_batch_loop.simps)
  have R: "sub_batch_loop env r n bs i sc =
     (if 0 < bs \<and> i < n then
        (case process_sub_batch env r n bs i sc of
           Raised e sc' \<Rightarrow> Raised e sc'
         | Returned sc' \<Rightarrow> sub_batch_loop env r n bs (i + bs) sc')
      else Returned sc)"
    by (rule sub_batch_loop.simps)
  show ?case
    by (subst L, subst R) (use "1.IH" in \<open>auto simp: process_sub_batch_write split: outcome.splits\<close>)
qed

lemma process_files_write:
  "process_files_with_progress (env\<lparr> write_result := w \<rparr>) r s = process_files_with_progress env r s"
  unfolding process_files_with_progress_def sub_batch_loop_write by (rule refl)

lemma driver_begin_write: "driver_begin (env\<lparr> write_result := w \<rparr>) r s = driver_begin env r s"
  by (simp add: driver_begin_def)

text \<open>
  C9: whatever happens to the result file (\<open>open\<close> fails, \<open>json.dump\<close> fails, or the
  write succeeds), a run of the driver leaves every job object (its status, its
  errors, all its fields), the active set and the history exactly as the run with a
  successful write does; the runs differ in the results directory only.
\<close>

theorem persistence_failure_isolated:
  "job_store (process_batch_job (env\<lparr> write_result := w \<rparr>) r s) =
     job_store (process_batch_job (env\<lparr> write_result := WriteOk \<rparr>) r s) \<and>
   active_jobs (process_batch_job (env\<lparr> write_result := w \<rparr>) r s) =
     active_jobs (process_batch_job (env\<lparr> write_result := WriteOk \<rparr>) r s) \<and>
   job_history (process_batch_job (env\<lparr> write_result := w \<rparr>) r s) =
     job_history (process_batch_job (env\<lparr> write_result := WriteOk \<rparr>) r s)"
  by (cases w; cases "process_files_with_progress env r (driver_begin env r s)")
     (auto simp: process_batch_job_def process_files_write driver_begin_write driver_complete_def
        save_job_results_def update_job_def driver_fail_def subtract_times_def Let_def
        split: option.splits)

subsection \<open>The end of a run\<close>

lemma sub_batch_loop_empty: "sub_batch_loop env r 0 bs i sc = Returned sc"
  by (subst sub_batch_loop.simps) simp

lemma driver_complete_Returned:
  assumes act: "active_jobs s (job_id (job_store s r)) = Some r'"
    and st: "start_time (job_store s r) = Some t0"
    and cb: "\<And>cb job. completion_callbacks s (job_id (job_store s r)) = Some cb \<Longrightarrow> cb job = None"
  shows "\<exists>s2. driver_complete env r s = Returned s2 \<and>
           job_store s2 r = (job_store s r)\<lparr> status := COMPLETED, end_time := Some (t_end env), progress := 100 \<rparr> \<and>
           submitted s2 = submitted s \<and>
           job_history s2 = job_history s @ [r] \<and>
           active_jobs s2 = (active_jobs s)(job_id (job_store s r) := None)"
proof (cases "completion_callbacks s (job_id (job_store s r))")
  case None
  with act st show ?thesis
    by (cases "write_result env")
       (simp_all add: driver_complete_def save_job_results_def update_job_def subtract_times_def Let_def)
next
  case (Some f)
  from cb [OF Some] have "\<And>job. f job = None" .
  with Some act st show ?thesis
    by (cases "write_result env")
       (simp_all add: driver_complete_def save_job_results_def update_job_def subtract_times_def Let_def)
qed

text \<open>
  C10: a job submitted with an empty list of files, on a processor with a positive
  number of workers and with no completion callback that raises: the loop over the
  files returns at once, without touching the processor (no file is handed to the
  executor, the division by \<open>total_files\<close> is never reached, no exception), and the
  run of the driver ends with the job in state Completed, its progress at the
  completed value 100, and its results and errors empty.
\<close>

theorem empty_job_completes:
  assumes workers: "0 < max_workers s"
    and callback: "\<And>cb job. completion_callbacks s (make_job_id now) = Some cb \<Longrightarrow> cb job = None"
  shows "process_files_with_progress env (next_ref s)
             (driver_begin env (next_ref s) (snd (submit_batch_job [] ats cp priority now s))) =
           Returned (driver_begin env (next_ref s) (snd (submit_batch_job [] ats cp priority now s))) \<and>
         status (job_store (process_batch_job env (next_ref s)
             (snd (submit_batch_job [] ats cp priority now s))) (next_ref s)) = COMPLETED \<and>
         progress (job_store (process_batch_job env (next_ref s)
             (snd (submit_batch_job [] ats cp priority now s))) (next_ref s)) = 100 \<and>
         results (job_store (process_batch_job env (next_ref s)
             (snd (submit_batch_job [] ats cp priority now s))) (next_ref s)) = [] \<and>
         errors (job_store (process_batch_job env (next_ref s)
             (snd (submit_batch_job [] ats cp priority now s))) (next_ref s)) = [] \<and>
         submitted (process_batch_job env (next_ref s)
             (snd (submit_batch_job [] ats cp priority now s))) = submitted s"
proof -
  define s0 where "s0 = snd (submit_batch_job [] ats cp priority now s)"
  define s1 where "s1 = driver_begin env (next_ref s) s0"
  have job: "job_store s1 (next_ref s) =
      (new_BatchJob (make_job_id now) [] ats cp)\<lparr> status := PROCESSING, start_time := Some (t_start env) \<rparr>"
    by (simp add: s1_def s0_def driver_begin_def update_job_def submit_batch_job_def Let_def)
  have mw: "max_workers s1 = max_workers s"
    by (simp add: s1_def s0_def driver_begin_def update_job_def submit_batch_job_def Let_def)
  have files: "process_files_with_progress env (next_ref s) s1 = Returned s1"
    using workers
    by (simp add: process_files_with_progress_def job mw new_BatchJob_def sub_batch_loop_empty Let_def min_def)
  have jid: "job_id (job_store s1 (next_ref s)) = make_job_id now"
    by (simp add: job new_BatchJob_def)
  have act: "active_jobs s1 (job_id (job_store s1 (next_ref s))) = Some (next_ref s)"
    unfolding jid by (simp add: s1_def s0_def driver_begin_def update_job_def submit_batch_job_def Let_def)
  have cbs: "completion_callbacks s1 = completion_callbacks s"
    and sub: "submitted s1 = submitted s"
    by (simp_all add: s1_def s0_def driver_begin_def update_job_def submit_batch_job_def Let_def)
  have st: "start_time (job_store s1 (next_ref s)) = Some (t_start env)"
    by (simp add: job)
  have cb: "\<And>cb j. completion_callbacks s1 (job_id (job_store s1 (next_ref s))) = Some cb \<Longrightarrow> cb j = None"
    unfolding jid cbs using callback .
  have "\<exists>s2. driver_complete env (next_ref s) s1 = Returned s2 \<and>
           job_store s2 (next_ref s) =
             (job_store s1 (next_ref s))\<lparr> status := COMPLETED, end_time := Some (t_end env), progress := 100 \<rparr> \<and>
           submitted s2 = submitted s1 \<and>
           job_history s2 = job_history s1 @ [next_ref s] \<and>
           active_jobs s2 = (active_jobs s1)(job_id (job_store s1 (next_ref s)) := None)"
    by (rule driver_complete_Returned [OF act st]) (rule cb)
  then obtain s2 where s2: "driver_complete env (next_ref s) s1 = Returned s2"
    and j2: "job_store s2 (next_ref s) =
        (job_store s1 (next_ref s))\<lparr> status := COMPLETED, end_time := Some (t_end env), progress := 100 \<rparr>"
    and sub2: "submitted s2 = submitted s1"
    by blast
  have run: "process_batch_job env (next_ref s) s0 = s2"
    using files s2 by (simp add: process_batch_job_def s1_def [symmetric])
  show ?thesis
    using files run j2 sub2 sub unfolding s1_def s0_def
    by (simp add: job [unfolded s1_def s0_def] new_BatchJob_def)
qed

theorem empty_job_completes_witness:
  "0 < max_workers batch_processor \<and> completion_callbacks batch_processor (make_job_id 1) = None \<and>
   status (job_store (process_batch_job
      \<lparr> work = (\<lambda>f a c. Inr ''ok''), t_start = 2, t_end = 3, t_fail = 4, write_result = WriteOk, t_write = 3 \<rparr>
      0 (snd (submit_batch_job [] [''table''] None 1 1 batch_processor))) 0) = COMPLETED \<and>
   progress (job_store (process_batch_job
      \<lparr> work = (\<lambda>f a c. Inr ''ok''), t_start = 2, t_end = 3, t_fail = 4, write_result = WriteOk, t_write = 3 \<rparr>
      0 (snd (submit_batch_job [] [''table''] None 1 1 batch_processor))) 0) = 100"
  using empty_job_completes [of batch_processor 1
      "\<lparr> work = (\<lambda>f a c. Inr ''ok''), t_start = 2, t_end = 3, t_fail = 4, write_result = WriteOk, t_write = 3 \<rparr>"
      "[''table'']" None 1]
  by (simp add: batch_processor_def)

end
